theory Spec2Isabelle
  imports Complex_Main "HOL-Library.Sublist"
begin

section \<open>2D feature tracking: detectors, descriptors and matchers\<close>

text \<open>
  A shallow embedding of \<^verbatim>\<open>2D_Feature_Tracking/src/matching2D_Student.cpp\<close>.

  The file wraps a computer-vision library. Every library routine the code calls
  (corner response, normalisation, detectors, extractors, matchers) is a parameter of
  the function that calls it, so each theorem holds for every behaviour of the library.
  Values of the C++ types \<^verbatim>\<open>float\<close> and \<^verbatim>\<open>double\<close> are read as the real
  numbers they denote, \<^verbatim>\<open>int\<close> as an integer, with the one product that can leave
  the 32 bits of \<^verbatim>\<open>int\<close> reduced to them. Output vectors passed by reference are
  arguments of the model and are returned with their final contents. Timing and the
  text printed to \<^verbatim>\<open>cout\<close> are left out; the windows opened by the debug
  visualisation are returned as a list of display events.
\<close>

subsection \<open>Data of the library\<close>

text \<open>\<^verbatim>\<open>cv::Mat\<close>, as far as the code reads it: the two dimensions and the element access \<^verbatim>\<open>at<float>(row, column)\<close>.\<close>

record Mat =
  rows :: int
  cols :: int
  at_float :: "int \<Rightarrow> int \<Rightarrow> real"

text \<open>\<^verbatim>\<open>cv::KeyPoint\<close> with all its fields, and the value its default constructor builds.\<close>

record KeyPoint =
  pt :: "real \<times> real"
  size_kp :: real
  angle :: real
  response :: real
  octave :: int
  class_id :: int

definition KeyPoint_default :: KeyPoint where
  "KeyPoint_default =
     \<lparr>pt = (0, 0), size_kp = 0, angle = - 1, response = 0, octave = 0, class_id = - 1\<rparr>"

text \<open>\<^verbatim>\<open>cv::DMatch\<close>.\<close>

record DMatch =
  queryIdx :: int
  trainIdx :: int
  imgIdx :: int
  distance :: real

text \<open>
  What the code can raise: \<^verbatim>\<open>std::invalid_argument\<close> with its message, and the
  dereference of a null \<^verbatim>\<open>cv::Ptr\<close>.
\<close>

datatype error = invalid_argument string | null_pointer_dereference

text \<open>
  A function that throws leaves its by-reference output behind: the result is the
  exception, if any, and the final contents of the output.
\<close>

type_synonym 's outcome = "error option \<times> 's"

text \<open>The conversion \<^verbatim>\<open>(int)x\<close> of a floating-point value: truncation towards zero.\<close>

definition float_to_int :: "real \<Rightarrow> int" where
  "float_to_int x = (if 0 \<le> x then \<lfloor>x\<rfloor> else \<lceil>x\<rceil>)"

text \<open>A window shown by the debug visualisation: its name, and the keypoints drawn in it.\<close>

datatype display = ShowMatrix string | ShowKeypoints string "KeyPoint list"

subsection \<open>matchDescriptors\<close>

datatype NormTypes = NORM_HAMMING | NORM_L2

text \<open>The matcher objects the code creates, each with the arguments of its creation.\<close>

datatype DescriptorMatcher =
    BFMatcher NormTypes bool
  | FlannBasedMatcher
  | FlannBasedMatcher_LshIndexParams int int int

text \<open>Lines 11 to 49: the configuration of the matcher.\<close>

definition configure_matcher :: "string \<Rightarrow> string \<Rightarrow> error + DescriptorMatcher" where
  "configure_matcher descriptorType matcherType =
     (let crossCheck = False in
      if matcherType = ''MAT_BF'' then
        (if descriptorType = ''DES_BINARY'' then Inr (BFMatcher NORM_HAMMING crossCheck)
         else if descriptorType = ''DES_HOG'' then Inr (BFMatcher NORM_L2 crossCheck)
         else Inl (invalid_argument (''invalid descriptorType '' @ descriptorType)))
      else if matcherType = ''MAT_FLANN'' then
        (if descriptorType = ''DES_HOG'' then Inr FlannBasedMatcher
         else if descriptorType = ''DES_BINARY'' then
           Inr (FlannBasedMatcher_LshIndexParams 12 20 2)
         else Inl (invalid_argument (''invalid descriptorType '' @ descriptorType)))
      else Inl (invalid_argument (''invalid matcherType '' @ matcherType)))"

text \<open>
  Lines 63 to 69: the loop over the k-nearest-neighbour result. \<^verbatim>\<open>kmatch[0]\<close> and
  \<^verbatim>\<open>kmatch[1]\<close> are read only behind the test of the size.
\<close>

fun knn_loop :: "real \<Rightarrow> DMatch list list \<Rightarrow> DMatch list \<Rightarrow> DMatch list" where
  "knn_loop minDistanceRatio [] matches = matches"
| "knn_loop minDistanceRatio (kmatch # rest) matches =
     knn_loop minDistanceRatio rest
       (if length kmatch = 2 \<and> distance (kmatch ! 0) < minDistanceRatio * distance (kmatch ! 1)
        then matches @ [kmatch ! 0]
        else matches)"

text \<open>
  The library's \<^verbatim>\<open>match\<close> receives the vector \<^verbatim>\<open>matches\<close> and returns its new
  contents; \<^verbatim>\<open>knnMatch\<close> fills a fresh vector of vectors.
\<close>

definition matchDescriptors ::
  "(DescriptorMatcher \<Rightarrow> Mat \<Rightarrow> Mat \<Rightarrow> DMatch list \<Rightarrow> DMatch list) \<Rightarrow>
   (DescriptorMatcher \<Rightarrow> Mat \<Rightarrow> Mat \<Rightarrow> int \<Rightarrow> DMatch list list) \<Rightarrow>
   KeyPoint list \<Rightarrow> KeyPoint list \<Rightarrow> Mat \<Rightarrow> Mat \<Rightarrow> DMatch list \<Rightarrow>
   string \<Rightarrow> string \<Rightarrow> string \<Rightarrow> DMatch list outcome" where
  "matchDescriptors lib_match lib_knnMatch kPtsSource kPtsRef descSource descRef matches
       descriptorType matcherType selectorType =
     (case configure_matcher descriptorType matcherType of
        Inl e \<Rightarrow> (Some e, matches)
      | Inr matcher \<Rightarrow>
          if selectorType = ''SEL_NN'' then
            (None, lib_match matcher descSource descRef matches)
          else if selectorType = ''SEL_KNN'' then
            (let kmatches = lib_knnMatch matcher descSource descRef 2;
                 minDistanceRatio = 0.8
             in (None, knn_loop minDistanceRatio kmatches matches))
          else (Some (invalid_argument (''invalid selectorType '' @ selectorType)), matches))"

text \<open>
  The ratio test in the words of the specification: the best match of each element that
  has exactly two entries and passes the test, in the order of the result.
\<close>

definition ratio_test_spec :: "DMatch list list \<Rightarrow> DMatch list" where
  "ratio_test_spec kmatches =
     map (\<lambda>kmatch. kmatch ! 0)
       (filter (\<lambda>kmatch. length kmatch = 2 \<and>
                  distance (kmatch ! 0) < 0.8 * distance (kmatch ! 1)) kmatches)"

subsection \<open>descKeypoints\<close>

text \<open>
  \<^verbatim>\<open>cv::FeatureDetector\<close> and \<^verbatim>\<open>cv::DescriptorExtractor\<close> are both the library's
  \<^verbatim>\<open>Feature2D\<close>. One constructor for each \<^verbatim>\<open>create\<close> call of the code;
  \<^verbatim>\<open>BRISK_params\<close> carries the threshold, the octaves and the pattern scale.
\<close>

datatype Feature2D =
    FastFeatureDetector
  | BRISK
  | BRISK_params int int real
  | BriefDescriptorExtractor
  | ORB
  | FREAK
  | AKAZE
  | SIFT

text \<open>
  Lines 82 to 111: a default \<^verbatim>\<open>cv::Ptr\<close> is null (\<open>None\<close>), and the chain of tests
  has no final \<^verbatim>\<open>else\<close>.
\<close>

definition select_extractor :: "string \<Rightarrow> Feature2D option" where
  "select_extractor descriptorType =
     (if descriptorType = ''BRISK'' then
        (let threshold = 30; octaves = 3; patternScale = 1.0
         in Some (BRISK_params threshold octaves patternScale))
      else if descriptorType = ''BRIEF'' then Some BriefDescriptorExtractor
      else if descriptorType = ''ORB'' then Some ORB
      else if descriptorType = ''FREAK'' then Some FREAK
      else if descriptorType = ''AKAZE'' then Some AKAZE
      else if descriptorType = ''SIFT'' then Some SIFT
      else None)"

text \<open>
  Line 115 calls \<^verbatim>\<open>compute\<close> through the pointer whatever it holds. The library's
  \<^verbatim>\<open>compute\<close> returns the new contents of \<^verbatim>\<open>keypoints\<close> and of \<^verbatim>\<open>descriptors\<close>.
\<close>

definition descKeypoints ::
  "(Feature2D \<Rightarrow> Mat \<Rightarrow> KeyPoint list \<Rightarrow> Mat \<Rightarrow> KeyPoint list \<times> Mat) \<Rightarrow>
   KeyPoint list \<Rightarrow> Mat \<Rightarrow> Mat \<Rightarrow> string \<Rightarrow> error + KeyPoint list \<times> Mat" where
  "descKeypoints lib_compute keypoints img descriptors descriptorType =
     (case select_extractor descriptorType of
        None \<Rightarrow> Inl null_pointer_dereference
      | Some extractor \<Rightarrow> Inr (lib_compute extractor img keypoints descriptors))"

subsection \<open>detKeypointsShiTomasi\<close>

text \<open>
  The product of two \<^verbatim>\<open>int\<close> as the 32-bit multiplication yields it: the product
  in the integers, reduced modulo \<open>2 ^ 32\<close> into the range from \<open>- 2 ^ 31\<close> up to
  \<open>2 ^ 31 - 1\<close> (two's complement).
\<close>

definition mul_int32 :: "int \<Rightarrow> int \<Rightarrow> int" where
  "mul_int32 a b = (a * b + 2 ^ 31) mod 2 ^ 32 - 2 ^ 31"

text \<open>Lines 138 to 145: one keypoint is pushed for each corner.\<close>

fun add_corners :: "int \<Rightarrow> (real \<times> real) list \<Rightarrow> KeyPoint list \<Rightarrow> KeyPoint list" where
  "add_corners blockSize [] keypoints = keypoints"
| "add_corners blockSize (it # rest) keypoints =
     (let newKeyPoint = KeyPoint_default
            \<lparr>pt := (fst it, snd it), size_kp := real_of_int blockSize\<rparr>
      in add_corners blockSize rest (keypoints @ [newKeyPoint]))"

text \<open>
  The library's \<^verbatim>\<open>goodFeaturesToTrack\<close> takes the image, the maximal number of
  corners, the quality level, the minimal distance, the mask (\<open>None\<close> for the empty
  \<^verbatim>\<open>cv::Mat()\<close>), the block size, the Harris flag and \<^verbatim>\<open>k\<close>, and returns the corners.
  The product \<^verbatim>\<open>img.rows * img.cols\<close> of line 127 is a product of two
  \<^verbatim>\<open>int\<close>, taken before the division: it is \<open>mul_int32\<close>.
\<close>

definition detKeypointsShiTomasi ::
  "(Mat \<Rightarrow> int \<Rightarrow> real \<Rightarrow> real \<Rightarrow> Mat option \<Rightarrow> int \<Rightarrow> bool \<Rightarrow> real \<Rightarrow> (real \<times> real) list) \<Rightarrow>
   KeyPoint list \<Rightarrow> Mat \<Rightarrow> bool \<Rightarrow> KeyPoint list \<times> display list" where
  "detKeypointsShiTomasi lib_goodFeaturesToTrack keypoints img bVis =
     (let blockSize = 4;
          maxOverlap = 0.0;
          minDistance = (1.0 - maxOverlap) * real_of_int blockSize;
          maxCorners = float_to_int
                         (real_of_int (mul_int32 (rows img) (cols img)) / max 1.0 minDistance);
          qualityLevel = 0.01;
          k = 0.04;
          corners = lib_goodFeaturesToTrack img maxCorners qualityLevel minDistance None
                      blockSize False k;
          keypoints' = add_corners blockSize corners keypoints
      in (keypoints',
          if bVis then [ShowKeypoints ''Shi-Tomasi Corner Detector Results'' keypoints']
          else []))"

subsection \<open>detKeypointsHarris\<close>

text \<open>
  Lines 203 to 215: the scan of the keypoints kept so far. It returns the vector, in
  which the new keypoint may have replaced one element, and \<^verbatim>\<open>foundOverlap\<close>.
  The scan stops at the first replacement (\<^verbatim>\<open>break\<close>).
\<close>

fun nms_scan ::
  "(KeyPoint \<Rightarrow> KeyPoint \<Rightarrow> real) \<Rightarrow> real \<Rightarrow> KeyPoint \<Rightarrow> KeyPoint list \<Rightarrow> bool \<Rightarrow>
   KeyPoint list \<times> bool" where
  "nms_scan overlap maxOverlap newKeyPoint [] foundOverlap = ([], foundOverlap)"
| "nms_scan overlap maxOverlap newKeyPoint (it # rest) foundOverlap =
     (let kptOverlap = overlap newKeyPoint it in
      if kptOverlap > maxOverlap then
        (if response newKeyPoint > response it then (newKeyPoint # rest, True)
         else (let (rest', found) = nms_scan overlap maxOverlap newKeyPoint rest True
               in (it # rest', found)))
      else (let (rest', found) = nms_scan overlap maxOverlap newKeyPoint rest foundOverlap
            in (it # rest', found)))"

text \<open>Lines 195 to 220: the body of the inner loop, for the pixel in row \<open>j\<close>, column \<open>i\<close>.\<close>

definition harris_pixel ::
  "(KeyPoint \<Rightarrow> KeyPoint \<Rightarrow> real) \<Rightarrow> int \<Rightarrow> int \<Rightarrow> real \<Rightarrow> Mat \<Rightarrow> int \<Rightarrow> int \<Rightarrow>
   KeyPoint list \<Rightarrow> KeyPoint list" where
  "harris_pixel overlap minResponse apertureSize maxOverlap dst_norm j i keypoints =
     (let response' = float_to_int (at_float dst_norm j i) in
      if response' > minResponse then
        (let newKeyPoint = KeyPoint_default
               \<lparr>pt := (real_of_int i, real_of_int j),
                size_kp := real_of_int (2 * apertureSize),
                response := real_of_int response'\<rparr>;
             (keypoints', foundOverlap) =
                nms_scan overlap maxOverlap newKeyPoint keypoints False
         in if \<not> foundOverlap then keypoints' @ [newKeyPoint] else keypoints')
      else keypoints)"

text \<open>Lines 193 to 221: the loop over the columns of row \<open>j\<close>, from column \<open>i\<close> on.\<close>

function harris_cols ::
  "(KeyPoint \<Rightarrow> KeyPoint \<Rightarrow> real) \<Rightarrow> int \<Rightarrow> int \<Rightarrow> real \<Rightarrow> Mat \<Rightarrow> int \<Rightarrow> int \<Rightarrow>
   KeyPoint list \<Rightarrow> KeyPoint list" where
  "harris_cols overlap minResponse apertureSize maxOverlap dst_norm j i keypoints =
     (if i < cols dst_norm then
        harris_cols overlap minResponse apertureSize maxOverlap dst_norm j (i + 1)
          (harris_pixel overlap minResponse apertureSize maxOverlap dst_norm j i keypoints)
      else keypoints)"
  by pat_completeness auto
termination
  by (relation "measure (\<lambda>(ov, mr, ap, mo, d, j, i, ks). nat (cols d - i))") auto

text \<open>Lines 191 to 222: the loop over the rows, from row \<open>j\<close> on.\<close>

function harris_rows ::
  "(KeyPoint \<Rightarrow> KeyPoint \<Rightarrow> real) \<Rightarrow> int \<Rightarrow> int \<Rightarrow> real \<Rightarrow> Mat \<Rightarrow> int \<Rightarrow>
   KeyPoint list \<Rightarrow> KeyPoint list" where
  "harris_rows overlap minResponse apertureSize maxOverlap dst_norm j keypoints =
     (if j < rows dst_norm then
        harris_rows overlap minResponse apertureSize maxOverlap dst_norm (j + 1)
          (harris_cols overlap minResponse apertureSize maxOverlap dst_norm j 0 keypoints)
      else keypoints)"
  by pat_completeness auto
termination
  by (relation "measure (\<lambda>(ov, mr, ap, mo, d, j, ks). nat (rows d - j))") auto

text \<open>
  The library's \<^verbatim>\<open>cornerHarris\<close> takes the image, the block size, the aperture size
  and \<^verbatim>\<open>k\<close> (the border type is the library's default) and returns the response
  matrix; \<^verbatim>\<open>normalize\<close> takes a matrix and the two bounds of the min-max
  normalisation; \<^verbatim>\<open>overlap\<close> is \<^verbatim>\<open>cv::KeyPoint::overlap\<close>. The 8-bit matrix of
  \<^verbatim>\<open>convertScaleAbs\<close> is only displayed.
\<close>

definition detKeypointsHarris ::
  "(Mat \<Rightarrow> int \<Rightarrow> int \<Rightarrow> real \<Rightarrow> Mat) \<Rightarrow> (Mat \<Rightarrow> real \<Rightarrow> real \<Rightarrow> Mat) \<Rightarrow>
   (KeyPoint \<Rightarrow> KeyPoint \<Rightarrow> real) \<Rightarrow>
   KeyPoint list \<Rightarrow> Mat \<Rightarrow> bool \<Rightarrow> KeyPoint list \<times> display list" where
  "detKeypointsHarris lib_cornerHarris lib_normalize overlap keypoints img bVis =
     (let blockSize = 2;
          apertureSize = 3;
          minResponse = 100;
          k = 0.04;
          dst = lib_cornerHarris img blockSize apertureSize k;
          dst_norm = lib_normalize dst 0 255;
          shown1 = (if bVis then [ShowMatrix ''Harris Corner Detector Response Matrix'']
                    else []);
          keypoints1 = (if keypoints \<noteq> [] then [] else keypoints);
          maxOverlap = 0.0;
          keypoints2 = harris_rows overlap minResponse apertureSize maxOverlap dst_norm 0
                         keypoints1;
          shown2 = (if bVis then [ShowKeypoints ''Harris corner detection results'' keypoints2]
                    else [])
      in (keypoints2, shown1 @ shown2))"

text \<open>
  Modelled from the library (its source is not part of this repository):
  \<^verbatim>\<open>cv::KeyPoint::overlap\<close>, the ratio of the area of the intersection of the two
  keypoint circles to the area of their union, by the library's own formula, over the
  reals.
\<close>

definition KeyPoint_overlap :: "KeyPoint \<Rightarrow> KeyPoint \<Rightarrow> real" where
  "KeyPoint_overlap kp1 kp2 =
     (let a = size_kp kp1 * 0.5;
          b = size_kp kp2 * 0.5;
          a_2 = a * a;
          b_2 = b * b;
          c = sqrt ((fst (pt kp1) - fst (pt kp2))\<^sup>2 + (snd (pt kp1) - snd (pt kp2))\<^sup>2)
      in if min a b + c \<le> max a b then min a_2 b_2 / max a_2 b_2
         else if c < a + b then
           (let c_2 = c * c;
                cosAlpha = (b_2 + c_2 - a_2) / (size_kp kp2 * c);
                cosBeta = (a_2 + c_2 - b_2) / (size_kp kp1 * c);
                alpha = arccos cosAlpha;
                beta = arccos cosBeta;
                sinAlpha = sin alpha;
                sinBeta = sin beta;
                segmentAreaA = a_2 * beta;
                segmentAreaB = b_2 * alpha;
                triangleAreaA = a_2 * sinBeta * cosBeta;
                triangleAreaB = b_2 * sinAlpha * cosAlpha;
                intersectionArea = segmentAreaA + segmentAreaB - triangleAreaA - triangleAreaB;
                unionArea = (a_2 + b_2) * pi - intersectionArea
            in intersectionArea / unionArea)
         else 0)"

subsection \<open>detKeypointsModern\<close>

text \<open>Lines 241 to 264: the detector for the name, or the exception.\<close>

definition select_detector :: "string \<Rightarrow> error + Feature2D" where
  "select_detector detectorType =
     (if detectorType = ''FAST'' then Inr FastFeatureDetector
      else if detectorType = ''BRISK'' then Inr BRISK
      else if detectorType = ''ORB'' then Inr ORB
      else if detectorType = ''AKAZE'' then Inr AKAZE
      else if detectorType = ''SIFT'' then Inr SIFT
      else Inl (invalid_argument (''invalid detectorType '' @ detectorType)))"

text \<open>
  The library's \<^verbatim>\<open>detect\<close> receives the vector \<^verbatim>\<open>keypoints\<close> and returns its new
  contents.
\<close>

definition detKeypointsModern ::
  "(Feature2D \<Rightarrow> Mat \<Rightarrow> KeyPoint list \<Rightarrow> KeyPoint list) \<Rightarrow>
   KeyPoint list \<Rightarrow> Mat \<Rightarrow> string \<Rightarrow> bool \<Rightarrow> (KeyPoint list \<times> display list) outcome" where
  "detKeypointsModern lib_detect keypoints img detectorType bVis =
     (case select_detector detectorType of
        Inl e \<Rightarrow> (Some e, (keypoints, []))
      | Inr detector \<Rightarrow>
          (let keypoints' = lib_detect detector img keypoints
           in (None,
               (keypoints',
                if bVis then
                  [ShowKeypoints (detectorType @ '' keypoint detection results'') keypoints']
                else []))))"

subsection \<open>The keypoint of a pixel, and example inputs\<close>

text \<open>
  The keypoint that lines 198 to 201 build for the pixel in row \<open>j\<close>, column \<open>i\<close>
  of the normalised response matrix.
\<close>

definition harris_keypoint :: "Mat \<Rightarrow> int \<Rightarrow> int \<Rightarrow> int \<Rightarrow> KeyPoint" where
  "harris_keypoint dst_norm apertureSize j i =
     KeyPoint_default
       \<lparr>pt := (real_of_int i, real_of_int j),
        size_kp := real_of_int (2 * apertureSize),
        response := real_of_int (float_to_int (at_float dst_norm j i))\<rparr>"


text \<open>
  A normalised response matrix of two rows and seven columns: 255 at row 0, column 0;
  150 at row 0, column 6; 200 at row 1, column 3; 0 elsewhere.
\<close>

definition example_dst_norm :: Mat where
  "example_dst_norm =
     \<lparr>rows = 2, cols = 7,
      at_float = (\<lambda>j i. if j = 0 \<and> i = 0 then 255
                        else if j = 0 \<and> i = 6 then 150
                        else if j = 1 \<and> i = 3 then 200
                        else 0)\<rparr>"

definition example_desc :: Mat where
  "example_desc = \<lparr>rows = 0, cols = 0, at_float = (\<lambda>j i. 0)\<rparr>"

definition example_match :: "int \<Rightarrow> real \<Rightarrow> DMatch" where
  "example_match q d = \<lparr>queryIdx = q, trainIdx = 0, imgIdx = 0, distance = d\<rparr>"

text \<open>
  A k-nearest-neighbour result of three elements: one that passes the ratio test, one
  with a single entry, one that fails the test.
\<close>

definition example_kmatches :: "DMatch list list" where
  "example_kmatches =
     [[example_match 0 1, example_match 0 2],
      [example_match 1 1],
      [example_match 2 3, example_match 2 3.5]]"

section \<open>Properties\<close>

text \<open>
  The two loops of \<^verbatim>\<open>detKeypointsHarris\<close> are unfolded one step at a time, where the
  bound is known.
\<close>

declare harris_cols.simps [simp del] harris_rows.simps [simp del]

subsection \<open>Loops as list operations\<close>

lemma knn_loop_append:
  "knn_loop r kmatches matches =
     matches @ map (\<lambda>kmatch. kmatch ! 0)
       (filter (\<lambda>kmatch. length kmatch = 2 \<and> distance (kmatch ! 0) < r * distance (kmatch ! 1))
          kmatches)"
  by (induction kmatches arbitrary: matches) simp_all

lemma add_corners_append:
  "add_corners blockSize corners keypoints =
     keypoints @ map (\<lambda>c. KeyPoint_default\<lparr>pt := c, size_kp := real_of_int blockSize\<rparr>) corners"
  by (induction corners arbitrary: keypoints) simp_all

subsection \<open>The 32-bit product\<close>

lemma mul_int32_in_range:
  "- (2 ^ 31) \<le> a * b \<Longrightarrow> a * b < 2 ^ 31 \<Longrightarrow> mul_int32 a b = a * b"
  by (simp add: mul_int32_def)

lemma mul_int32_bounds: "- (2 ^ 31) \<le> mul_int32 a b \<and> mul_int32 a b < 2 ^ 31"
proof -
  have "0 \<le> (a * b + 2 ^ 31) mod 2 ^ 32" "(a * b + 2 ^ 31) mod 2 ^ 32 < (2 ^ 32 :: int)"
    by simp_all
  then show ?thesis by (simp add: mul_int32_def)
qed

text \<open>
  An image of 50000 rows and 50000 columns: the product leaves the range, and the number
  of corners passed to the library is negative.
\<close>

lemma mul_int32_wraps:
  "float_to_int (real_of_int (mul_int32 50000 50000) / max 1.0 ((1.0 - 0.0) * 4)) = - 448741824"
  by (simp add: mul_int32_def float_to_int_def)

subsection \<open>The matcher configuration\<close>

lemma configure_matcher_Inl:
  "(\<exists>e. configure_matcher descriptorType matcherType = Inl e) \<longleftrightarrow>
   matcherType \<notin> {''MAT_BF'', ''MAT_FLANN''} \<or> descriptorType \<notin> {''DES_BINARY'', ''DES_HOG''}"
  by (auto simp: configure_matcher_def)

lemma configure_matcher_error:
  "configure_matcher descriptorType matcherType = Inl e \<Longrightarrow> \<exists>msg. e = invalid_argument msg"
  by (auto simp: configure_matcher_def split: if_splits)

subsection \<open>The scan of the Harris keypoints\<close>





lemma detKeypointsHarris_keypoints:
  "fst (detKeypointsHarris lib_cornerHarris lib_normalize overlap keypoints img bVis) =
     harris_rows overlap 100 3 0 (lib_normalize (lib_cornerHarris img 2 3 0.04) 0 255) 0 []"
  by (simp add: detKeypointsHarris_def Let_def)

subsection \<open>The overlap of two Harris keypoints\<close>

text \<open>
  For two circles of radius 3 whose centres are \<open>c\<close> apart, \<open>0 < c < 6\<close>, the area of
  the lens is positive and smaller than the area of one circle.
\<close>

lemma lens_area_bounds:
  fixes c :: real
  assumes "0 < c" "c < 6"
  shows "0 < arccos (c / 6) - sin (arccos (c / 6)) * (c / 6)"
    and "arccos (c / 6) - sin (arccos (c / 6)) * (c / 6) < pi"
proof -
  let ?al = "arccos (c / 6)"
  have r: "0 < c / 6" "c / 6 < 1" using assms by simp_all
  then have al: "0 < ?al" "?al < pi"
    using arccos_lt_bounded [of "c / 6"] by simp_all
  then have s: "0 < sin ?al" by (simp add: sin_gt_zero)
  have "sin ?al \<le> ?al" using al by (simp add: sin_x_le_x)
  moreover have "sin ?al * (c / 6) < sin ?al * 1"
    using s r by (intro mult_strict_left_mono) simp_all
  ultimately show "0 < ?al - sin ?al * (c / 6)" by simp
  have "0 < sin ?al * (c / 6)" using s r by simp
  then show "?al - sin ?al * (c / 6) < pi" using al by simp
qed

text \<open>
  Two keypoints of size 6 overlap exactly when their centres are less than 6 apart.
\<close>

lemma KeyPoint_overlap_pos_iff:
  assumes "size_kp kp1 = 6" "size_kp kp2 = 6"
  shows "0 < KeyPoint_overlap kp1 kp2 \<longleftrightarrow>
         (fst (pt kp1) - fst (pt kp2))\<^sup>2 + (snd (pt kp1) - snd (pt kp2))\<^sup>2 < 36"
proof -
  define d where "d = (fst (pt kp1) - fst (pt kp2))\<^sup>2 + (snd (pt kp1) - snd (pt kp2))\<^sup>2"
  define c where "c = sqrt d"
  have d0: "0 \<le> d" by (simp add: d_def)
  then have c0: "0 \<le> c" by (simp add: c_def)
  have c6: "c < 6 \<longleftrightarrow> d < 36"
  proof -
    have "sqrt d < sqrt 36 \<longleftrightarrow> d < 36" by (rule real_sqrt_less_iff)
    moreover have "sqrt 36 = (6::real)" using real_sqrt_abs [of 6] by simp
    ultimately show ?thesis by (simp add: c_def)
  qed
  define q where "q = (6 * 0.5 * (6 * 0.5) + c * c - 6 * 0.5 * (6 * 0.5)) / (6 * c)"
  have raw: "KeyPoint_overlap kp1 kp2 =
      (if min (6 * 0.5) (6 * 0.5) + c \<le> max (6 * 0.5) (6 * 0.5 :: real)
       then min (6 * 0.5 * (6 * 0.5)) (6 * 0.5 * (6 * 0.5)) /
            max (6 * 0.5 * (6 * 0.5)) (6 * 0.5 * (6 * 0.5))
       else if c < 6 * 0.5 + 6 * 0.5 then
         (6 * 0.5 * (6 * 0.5) * arccos q + 6 * 0.5 * (6 * 0.5) * arccos q -
          6 * 0.5 * (6 * 0.5) * sin (arccos q) * q -
          6 * 0.5 * (6 * 0.5) * sin (arccos q) * q) /
         ((6 * 0.5 * (6 * 0.5) + 6 * 0.5 * (6 * 0.5)) * pi -
          (6 * 0.5 * (6 * 0.5) * arccos q + 6 * 0.5 * (6 * 0.5) * arccos q -
           6 * 0.5 * (6 * 0.5) * sin (arccos q) * q -
           6 * 0.5 * (6 * 0.5) * sin (arccos q) * q))
       else 0)"
    unfolding KeyPoint_overlap_def Let_def assms q_def c_def d_def ..
  have q: "q = c / 6" if "c \<noteq> 0"
    using that by (simp add: q_def)
  have ov: "KeyPoint_overlap kp1 kp2 =
      (if c \<le> 0 then 1
       else if c < 6 then
         (18 * (arccos (c / 6) - sin (arccos (c / 6)) * (c / 6))) /
         (18 * pi - 18 * (arccos (c / 6) - sin (arccos (c / 6)) * (c / 6)))
       else 0)"
  proof (cases "c = 0")
    case True
    then show ?thesis unfolding raw by simp
  next
    case False
    show ?thesis unfolding raw q [OF False] by simp
  qed
  show ?thesis
  proof (cases "c = 0")
    case True
    then show ?thesis using c6 ov unfolding d_def by simp
  next
    case False
    then have cpos: "0 < c" using c0 by simp
    show ?thesis
    proof (cases "c < 6")
      case True
      define lens where "lens = arccos (c / 6) - sin (arccos (c / 6)) * (c / 6)"
      have "0 < lens" "lens < pi"
        unfolding lens_def by (rule lens_area_bounds [OF cpos True])+
      then have "0 < 18 * lens" "0 < 18 * pi - 18 * lens" by simp_all
      then have "0 < (18 * lens) / (18 * pi - 18 * lens)" by (rule divide_pos_pos)
      moreover have "KeyPoint_overlap kp1 kp2 = (18 * lens) / (18 * pi - 18 * lens)"
        unfolding ov lens_def using True cpos by simp
      ultimately show ?thesis using True c6 unfolding d_def by simp
    next
      case False
      then show ?thesis using cpos c6 ov unfolding d_def by simp
    qed
  qed
qed

text \<open>
  The loops on the example matrix. The keypoint of pixel (row 0, column 0) is pushed; the
  keypoint of (row 0, column 6) is 6 away from it and is pushed. The keypoint of
  (row 1, column 3) overlaps both: its response 200 is not greater than 255, so the
  first stays; it is greater than 150, so it replaces the second.
\<close>

lemma example_harris_rows:
  "harris_rows KeyPoint_overlap 100 3 0 example_dst_norm 0 [] =
     [harris_keypoint example_dst_norm 3 0 0, harris_keypoint example_dst_norm 3 1 3]"
  by (simp add: harris_rows.simps harris_cols.simps example_dst_norm_def harris_pixel_def
        harris_keypoint_def KeyPoint_default_def float_to_int_def KeyPoint_overlap_pos_iff
        Let_def)

section \<open>The claims\<close>

text \<open>
  C1. After \<^verbatim>\<open>detKeypointsHarris\<close> returns, no two distinct keypoints of the output
  overlap (the overlap of every pair is not greater than \<^verbatim>\<open>maxOverlap = 0.0\<close>).

  The code misses this. A new keypoint that overlaps a kept one of smaller response
  replaces it and the scan stops, whatever else the new keypoint overlaps. On a
  normalised response of 255 at (row 0, column 0), 150 at (row 0, column 6) and 200 at
  (row 1, column 3), the function returns the keypoints of (0, 0) and of (1, 3), whose
  centres are \<open>sqrt 10\<close> apart, so that their circles of diameter 6 overlap.
\<close>

theorem detKeypointsHarris_keeps_overlapping_pair:
  "fst (detKeypointsHarris (\<lambda>img blockSize apertureSize k. img)
          (\<lambda>dst alpha beta. example_dst_norm) KeyPoint_overlap [] example_desc False) =
     [harris_keypoint example_dst_norm 3 0 0, harris_keypoint example_dst_norm 3 1 3] \<and>
   harris_keypoint example_dst_norm 3 0 0 \<noteq> harris_keypoint example_dst_norm 3 1 3 \<and>
   0 < KeyPoint_overlap (harris_keypoint example_dst_norm 3 0 0)
         (harris_keypoint example_dst_norm 3 1 3)"
proof -
  have "fst (detKeypointsHarris (\<lambda>img blockSize apertureSize k. img)
          (\<lambda>dst alpha beta. example_dst_norm) KeyPoint_overlap [] example_desc False) =
     [harris_keypoint example_dst_norm 3 0 0, harris_keypoint example_dst_norm 3 1 3]"
    by (simp only: detKeypointsHarris_keypoints example_harris_rows)
  moreover have "harris_keypoint example_dst_norm 3 0 0 \<noteq> harris_keypoint example_dst_norm 3 1 3"
    by (simp add: harris_keypoint_def KeyPoint_default_def)
  moreover have "0 < KeyPoint_overlap (harris_keypoint example_dst_norm 3 0 0)
         (harris_keypoint example_dst_norm 3 1 3)"
    by (simp add: harris_keypoint_def KeyPoint_default_def KeyPoint_overlap_pos_iff)
  ultimately show ?thesis by blast
qed

text \<open>
  C2. In \<^verbatim>\<open>matchDescriptors\<close> with selector \<^verbatim>\<open>SEL_KNN\<close>, once the matcher is
  configured, the final \<^verbatim>\<open>matches\<close> are the initial ones followed by the best match
  \<^verbatim>\<open>kmatch[0]\<close> of exactly those elements of the 2-nearest-neighbour result that have
  two entries and whose first distance is below 0.8 times the second, in the order of the
  result, and nothing else.
\<close>

theorem matchDescriptors_knn_ratio_test:
  assumes "configure_matcher descriptorType matcherType = Inr matcher"
  shows "matchDescriptors lib_match lib_knnMatch kPtsSource kPtsRef descSource descRef matches
           descriptorType matcherType ''SEL_KNN''
         = (None, matches @ ratio_test_spec (lib_knnMatch matcher descSource descRef 2))"
  using assms by (simp add: matchDescriptors_def ratio_test_spec_def knn_loop_append)

theorem matchDescriptors_knn_ratio_test_witness:
  "configure_matcher ''DES_BINARY'' ''MAT_BF'' = Inr (BFMatcher NORM_HAMMING False) \<and>
   matchDescriptors (\<lambda>matcher query train ms. ms) (\<lambda>matcher query train k. example_kmatches)
     [] [] example_desc example_desc [example_match 7 9] ''DES_BINARY'' ''MAT_BF'' ''SEL_KNN''
   = (None, [example_match 7 9, example_match 0 1])"
proof -
  have c: "configure_matcher ''DES_BINARY'' ''MAT_BF'' = Inr (BFMatcher NORM_HAMMING False)"
    by (simp add: configure_matcher_def)
  have "ratio_test_spec example_kmatches = [example_match 0 1]"
    by (simp add: ratio_test_spec_def example_kmatches_def example_match_def)
  with c matchDescriptors_knn_ratio_test [OF c,
      of "\<lambda>matcher query train ms. ms" "\<lambda>matcher query train k. example_kmatches"
         "[]" "[]" example_desc example_desc "[example_match 7 9]"]
  show ?thesis by simp
qed

text \<open>
  C3. \<^verbatim>\<open>matchDescriptors\<close> throws \<^verbatim>\<open>invalid_argument\<close> exactly when the matcher type
  is neither \<^verbatim>\<open>MAT_BF\<close> nor \<^verbatim>\<open>MAT_FLANN\<close>, or the descriptor type is neither
  \<^verbatim>\<open>DES_BINARY\<close> nor \<^verbatim>\<open>DES_HOG\<close>, or the selector type is neither \<^verbatim>\<open>SEL_NN\<close>
  nor \<^verbatim>\<open>SEL_KNN\<close>; it returns normally exactly when all three are supported; and when
  the matcher configuration throws, \<^verbatim>\<open>matches\<close> is left as it was.
\<close>

theorem matchDescriptors_invalid_argument:
  "((\<exists>msg. fst (matchDescriptors lib_match lib_knnMatch kPtsSource kPtsRef descSource descRef
                  matches descriptorType matcherType selectorType)
            = Some (invalid_argument msg))
      \<longleftrightarrow> (matcherType \<notin> {''MAT_BF'', ''MAT_FLANN''} \<or>
           descriptorType \<notin> {''DES_BINARY'', ''DES_HOG''} \<or>
           selectorType \<notin> {''SEL_NN'', ''SEL_KNN''})) \<and>
   (fst (matchDescriptors lib_match lib_knnMatch kPtsSource kPtsRef descSource descRef
           matches descriptorType matcherType selectorType) = None
      \<longleftrightarrow> (matcherType \<in> {''MAT_BF'', ''MAT_FLANN''} \<and>
           descriptorType \<in> {''DES_BINARY'', ''DES_HOG''} \<and>
           selectorType \<in> {''SEL_NN'', ''SEL_KNN''})) \<and>
   (matcherType \<notin> {''MAT_BF'', ''MAT_FLANN''} \<or>
    descriptorType \<notin> {''DES_BINARY'', ''DES_HOG''}
      \<longrightarrow> snd (matchDescriptors lib_match lib_knnMatch kPtsSource kPtsRef descSource descRef
                matches descriptorType matcherType selectorType) = matches)"
proof (cases "configure_matcher descriptorType matcherType")
  case (Inl e)
  moreover from Inl obtain msg where "e = invalid_argument msg"
    using configure_matcher_error by blast
  moreover from Inl have "matcherType \<notin> {''MAT_BF'', ''MAT_FLANN''} \<or>
      descriptorType \<notin> {''DES_BINARY'', ''DES_HOG''}"
    using configure_matcher_Inl [of descriptorType matcherType] by blast
  ultimately show ?thesis by (auto simp: matchDescriptors_def)
next
  case (Inr matcher)
  then have "\<not> (matcherType \<notin> {''MAT_BF'', ''MAT_FLANN''} \<or>
      descriptorType \<notin> {''DES_BINARY'', ''DES_HOG''})"
    using configure_matcher_Inl [of descriptorType matcherType] by auto
  with Inr show ?thesis by (auto simp: matchDescriptors_def)
qed

theorem matchDescriptors_invalid_argument_witness:
  "''MAT_X'' \<notin> {''MAT_BF'', ''MAT_FLANN''} \<and>
   fst (matchDescriptors (\<lambda>matcher query train ms. []) (\<lambda>matcher query train k. example_kmatches)
          [] [] example_desc example_desc [example_match 7 9] ''DES_HOG'' ''MAT_X'' ''SEL_NN'')
     \<noteq> None \<and>
   snd (matchDescriptors (\<lambda>matcher query train ms. []) (\<lambda>matcher query train k. example_kmatches)
          [] [] example_desc example_desc [example_match 7 9] ''DES_HOG'' ''MAT_X'' ''SEL_NN'')
     = [example_match 7 9]"
  using matchDescriptors_invalid_argument
    [of "\<lambda>matcher query train ms. []" "\<lambda>matcher query train k. example_kmatches"
        "[]" "[]" example_desc example_desc "[example_match 7 9]" "''DES_HOG''" "''MAT_X''"
        "''SEL_NN''"]
  by simp

text \<open>
  C4. For every descriptor type outside BRISK, BRIEF, ORB, FREAK, AKAZE and SIFT,
  \<^verbatim>\<open>descKeypoints\<close> selects no extractor and calls \<^verbatim>\<open>compute\<close> through the null
  pointer; for the six names, and only for them, an extractor exists at the call, and the
  call is made on it.
\<close>

theorem descKeypoints_null_extractor:
  "(select_extractor descriptorType = None
      \<longleftrightarrow> descriptorType \<notin> {''BRISK'', ''BRIEF'', ''ORB'', ''FREAK'', ''AKAZE'', ''SIFT''}) \<and>
   (descKeypoints lib_compute keypoints img descriptors descriptorType
      = Inl null_pointer_dereference
      \<longleftrightarrow> descriptorType \<notin> {''BRISK'', ''BRIEF'', ''ORB'', ''FREAK'', ''AKAZE'', ''SIFT''}) \<and>
   descKeypoints lib_compute keypoints img descriptors ''BRISK''
     = Inr (lib_compute (BRISK_params 30 3 1) img keypoints descriptors) \<and>
   descKeypoints lib_compute keypoints img descriptors ''BRIEF''
     = Inr (lib_compute BriefDescriptorExtractor img keypoints descriptors) \<and>
   descKeypoints lib_compute keypoints img descriptors ''ORB''
     = Inr (lib_compute ORB img keypoints descriptors) \<and>
   descKeypoints lib_compute keypoints img descriptors ''FREAK''
     = Inr (lib_compute FREAK img keypoints descriptors) \<and>
   descKeypoints lib_compute keypoints img descriptors ''AKAZE''
     = Inr (lib_compute AKAZE img keypoints descriptors) \<and>
   descKeypoints lib_compute keypoints img descriptors ''SIFT''
     = Inr (lib_compute SIFT img keypoints descriptors)"
  by (simp add: descKeypoints_def select_extractor_def)

text \<open>
  C5. \<^verbatim>\<open>detKeypointsModern\<close> throws \<^verbatim>\<open>invalid_argument\<close> exactly when the detector
  type is not one of FAST, BRISK, ORB, AKAZE and SIFT, and returns normally otherwise;
  for each of the five names the keypoints are those the library's \<^verbatim>\<open>detect\<close> yields
  on the detector of that name.
\<close>

theorem detKeypointsModern_dispatch:
  "((\<exists>msg. fst (detKeypointsModern lib_detect keypoints img detectorType bVis)
            = Some (invalid_argument msg))
      \<longleftrightarrow> detectorType \<notin> {''FAST'', ''BRISK'', ''ORB'', ''AKAZE'', ''SIFT''}) \<and>
   (fst (detKeypointsModern lib_detect keypoints img detectorType bVis) = None
      \<longleftrightarrow> detectorType \<in> {''FAST'', ''BRISK'', ''ORB'', ''AKAZE'', ''SIFT''}) \<and>
   fst (snd (detKeypointsModern lib_detect keypoints img ''FAST'' bVis))
     = lib_detect FastFeatureDetector img keypoints \<and>
   fst (snd (detKeypointsModern lib_detect keypoints img ''BRISK'' bVis))
     = lib_detect BRISK img keypoints \<and>
   fst (snd (detKeypointsModern lib_detect keypoints img ''ORB'' bVis))
     = lib_detect ORB img keypoints \<and>
   fst (snd (detKeypointsModern lib_detect keypoints img ''AKAZE'' bVis))
     = lib_detect AKAZE img keypoints \<and>
   fst (snd (detKeypointsModern lib_detect keypoints img ''SIFT'' bVis))
     = lib_detect SIFT img keypoints"
  by (simp add: detKeypointsModern_def select_detector_def Let_def)



text \<open>
  C7. \<^verbatim>\<open>detKeypointsShiTomasi\<close> calls \<^verbatim>\<open>goodFeaturesToTrack\<close> with block size 4,
  quality level 0.01, minimal distance \<open>(1.0 - 0.0) * 4 = 4\<close> and, as the maximal number
  of corners, \<^verbatim>\<open>img.rows * img.cols / max(1.0, minDistance)\<close> truncated to \<^verbatim>\<open>int\<close>,
  and then appends one keypoint for each corner returned, in their order, at the corner's
  coordinates and of size 4. The product \<^verbatim>\<open>img.rows * img.cols\<close> is the product of
  two \<^verbatim>\<open>int\<close>; it is the product in the integers whenever that lies in the range of
  \<^verbatim>\<open>int\<close>.
\<close>

theorem detKeypointsShiTomasi_delegates:
  "fst (detKeypointsShiTomasi lib_goodFeaturesToTrack keypoints img bVis) =
     keypoints @ map (\<lambda>corner. KeyPoint_default\<lparr>pt := corner, size_kp := 4\<rparr>)
       (lib_goodFeaturesToTrack img
          (float_to_int
             (real_of_int (mul_int32 (rows img) (cols img)) / max 1.0 ((1.0 - 0.0) * 4)))
          0.01 ((1.0 - 0.0) * 4) None 4 False 0.04) \<and>
   (1.0 - 0.0) * 4 = (4 :: real) \<and>
   (- (2 ^ 31) \<le> rows img * cols img \<and> rows img * cols img < 2 ^ 31 \<longrightarrow>
      fst (detKeypointsShiTomasi lib_goodFeaturesToTrack keypoints img bVis) =
        keypoints @ map (\<lambda>corner. KeyPoint_default\<lparr>pt := corner, size_kp := 4\<rparr>)
          (lib_goodFeaturesToTrack img
             (float_to_int (real_of_int (rows img * cols img) / max 1.0 ((1.0 - 0.0) * 4)))
             0.01 ((1.0 - 0.0) * 4) None 4 False 0.04))"
proof -
  have a: "fst (detKeypointsShiTomasi lib_goodFeaturesToTrack keypoints img bVis) =
     keypoints @ map (\<lambda>corner. KeyPoint_default\<lparr>pt := corner, size_kp := 4\<rparr>)
       (lib_goodFeaturesToTrack img
          (float_to_int
             (real_of_int (mul_int32 (rows img) (cols img)) / max 1.0 ((1.0 - 0.0) * 4)))
          0.01 ((1.0 - 0.0) * 4) None 4 False 0.04)"
    by (simp add: detKeypointsShiTomasi_def add_corners_append Let_def)
  have b: "(1.0 - 0.0) * 4 = (4 :: real)" by simp
  have c: "mul_int32 (rows img) (cols img) = rows img * cols img"
    if "- (2 ^ 31) \<le> rows img * cols img" "rows img * cols img < 2 ^ 31"
    using that by (rule mul_int32_in_range)
  show ?thesis
  proof (intro conjI impI)
    show "fst (detKeypointsShiTomasi lib_goodFeaturesToTrack keypoints img bVis) =
     keypoints @ map (\<lambda>corner. KeyPoint_default\<lparr>pt := corner, size_kp := 4\<rparr>)
       (lib_goodFeaturesToTrack img
          (float_to_int
             (real_of_int (mul_int32 (rows img) (cols img)) / max 1.0 ((1.0 - 0.0) * 4)))
          0.01 ((1.0 - 0.0) * 4) None 4 False 0.04)"
      by (rule a)
    show "(1.0 - 0.0) * 4 = (4 :: real)" by (rule b)
    assume r: "- (2 ^ 31) \<le> rows img * cols img \<and> rows img * cols img < 2 ^ 31"
    then have "mul_int32 (rows img) (cols img) = rows img * cols img"
      using c by blast
    with a show "fst (detKeypointsShiTomasi lib_goodFeaturesToTrack keypoints img bVis) =
        keypoints @ map (\<lambda>corner. KeyPoint_default\<lparr>pt := corner, size_kp := 4\<rparr>)
          (lib_goodFeaturesToTrack img
             (float_to_int (real_of_int (rows img * cols img) / max 1.0 ((1.0 - 0.0) * 4)))
             0.01 ((1.0 - 0.0) * 4) None 4 False 0.04)"
      by simp
  qed
qed

theorem detKeypointsShiTomasi_delegates_witness:
  "- (2 ^ 31) \<le> rows example_dst_norm * cols example_dst_norm \<and>
   rows example_dst_norm * cols example_dst_norm < 2 ^ 31 \<and>
   fst (detKeypointsShiTomasi
          (\<lambda>img maxCorners qualityLevel minDistance mask blockSize useHarris k.
             [(real_of_int maxCorners, minDistance)])
          [KeyPoint_default] example_dst_norm False) =
     [KeyPoint_default, KeyPoint_default\<lparr>pt := (3, 4), size_kp := 4\<rparr>]"
proof -
  have r: "- (2 ^ 31) \<le> rows example_dst_norm * cols example_dst_norm \<and>
      rows example_dst_norm * cols example_dst_norm < 2 ^ 31"
    by (simp add: example_dst_norm_def)
  have m: "float_to_int
      (real_of_int (rows example_dst_norm * cols example_dst_norm) / max 1.0 ((1.0 - 0.0) * 4))
      = 3"
    by (simp add: example_dst_norm_def float_to_int_def)
  note t = detKeypointsShiTomasi_delegates
    [of "\<lambda>img maxCorners qualityLevel minDistance mask blockSize useHarris k.
           [(real_of_int maxCorners, minDistance)]"
        "[KeyPoint_default]" example_dst_norm False]
  from t [THEN conjunct2, THEN conjunct2, THEN mp, OF r]
  have "fst (detKeypointsShiTomasi
          (\<lambda>img maxCorners qualityLevel minDistance mask blockSize useHarris k.
             [(real_of_int maxCorners, minDistance)])
          [KeyPoint_default] example_dst_norm False) =
     [KeyPoint_default, KeyPoint_default\<lparr>pt := (3, 4), size_kp := 4\<rparr>]"
    unfolding m by simp
  with r show ?thesis by blast
qed

text \<open>
  C8. The debug visualisation does not change the results: with \<^verbatim>\<open>bVis\<close> true and
  with \<^verbatim>\<open>bVis\<close> false, on the same image and the same initial keypoints, each of the
  three detectors leaves the same keypoints behind (and \<^verbatim>\<open>detKeypointsModern\<close> throws in
  the one case exactly when it throws in the other).
\<close>

theorem bVis_output_neutral:
  "fst (detKeypointsShiTomasi lib_goodFeaturesToTrack keypoints img True)
     = fst (detKeypointsShiTomasi lib_goodFeaturesToTrack keypoints img False) \<and>
   fst (detKeypointsHarris lib_cornerHarris lib_normalize overlap keypoints img True)
     = fst (detKeypointsHarris lib_cornerHarris lib_normalize overlap keypoints img False) \<and>
   fst (snd (detKeypointsModern lib_detect keypoints img detectorType True))
     = fst (snd (detKeypointsModern lib_detect keypoints img detectorType False)) \<and>
   fst (detKeypointsModern lib_detect keypoints img detectorType True)
     = fst (detKeypointsModern lib_detect keypoints img detectorType False)"
  by (simp add: detKeypointsShiTomasi_def detKeypointsHarris_def detKeypointsModern_def Let_def
        split: sum.splits)

text \<open>
  C9. \<^verbatim>\<open>detKeypointsShiTomasi\<close> and the \<^verbatim>\<open>SEL_KNN\<close> branch of
  \<^verbatim>\<open>matchDescriptors\<close> append to their output vector without clearing it: the elements
  present before the call are a prefix of the vector after the call.
\<close>

theorem append_keeps_prefix:
  "prefix keypoints (fst (detKeypointsShiTomasi lib_goodFeaturesToTrack keypoints img bVis)) \<and>
   prefix matches
     (snd (matchDescriptors lib_match lib_knnMatch kPtsSource kPtsRef descSource descRef matches
             descriptorType matcherType ''SEL_KNN''))"
proof
  show "prefix keypoints
          (fst (detKeypointsShiTomasi lib_goodFeaturesToTrack keypoints img bVis))"
    by (simp add: detKeypointsShiTomasi_def add_corners_append Let_def)
  show "prefix matches
     (snd (matchDescriptors lib_match lib_knnMatch kPtsSource kPtsRef descSource descRef matches
             descriptorType matcherType ''SEL_KNN''))"
    by (cases "configure_matcher descriptorType matcherType")
       (simp_all add: matchDescriptors_def knn_loop_append)
qed

text \<open>
  C10. \<^verbatim>\<open>detKeypointsHarris\<close> empties the keypoints vector before the detection, so its
  result does not depend on what the vector held: a call with any vector gives what a call
  with the empty vector gives.
\<close>

theorem detKeypointsHarris_clears:
  "detKeypointsHarris lib_cornerHarris lib_normalize overlap keypoints img bVis
     = detKeypointsHarris lib_cornerHarris lib_normalize overlap [] img bVis"
  by (simp add: detKeypointsHarris_def Let_def)

end
